theory Spec2Isabelle
  imports Main "HOL-Library.Stream"
begin

section \<open>chatnio \<open>utils/net.go\<close>: HTTP client factory, request helpers, event-stream consumer\<close>

text \<open>
  A shallow embedding of \<^verbatim>\<open>src/utils/net.go\<close>. Go strings are byte sequences, so a
  string is a \<^typ>\<open>char list\<close> (one \<^typ>\<open>char\<close> per byte). A Go \<^verbatim>\<open>error\<close> is an
  \<open>error option\<close> (\<open>None\<close> is \<^verbatim>\<open>nil\<close>). A panic is a value of its own, so that the
  \<^verbatim>\<open>defer\<close>/\<^verbatim>\<open>recover\<close> boundary of \<^verbatim>\<open>EventSource\<close> is a case split. Functions of
  other packages (the standard library, \<^verbatim>\<open>globals\<close>, the JSON helpers of \<^verbatim>\<open>utils\<close>) are
  parameters, collected in the record \<open>env\<close>; the log sink and the process-wide default
  transport are the record \<open>world\<close>, passed in and returned.
\<close>

subsection \<open>\<^verbatim>\<open>strings.Split(data, "\n")\<close> and \<^verbatim>\<open>strings.TrimSpace\<close>\<close>

text \<open>
  \<^verbatim>\<open>strings.Split\<close> with the separator \<^verbatim>\<open>"\n"\<close>: the pieces between the newline bytes, one
  more piece than there are newlines (so \<^verbatim>\<open>""\<close> splits into one empty piece).
\<close>

fun Split :: "string \<Rightarrow> string list" where
  "Split [] = [[]]"
| "Split (c # cs) =
     (if c = CHR 0x0A then [] # Split cs
      else (case Split cs of [] \<Rightarrow> [[c]] | p # ps \<Rightarrow> (c # p) # ps))"

text \<open>
  \<^verbatim>\<open>strings.TrimSpace\<close> removes the leading and the trailing white-space runes, as
  \<^verbatim>\<open>unicode.IsSpace\<close> defines them: the six ASCII bytes of \<^verbatim>\<open>asciiSpace\<close>, and the runes
  U+0085, U+00A0, U+1680, U+2000 to U+200A, U+2028, U+2029, U+202F, U+205F, U+3000, which
  a string holds in UTF-8. A byte sequence that is not the UTF-8 encoding of one of them
  decodes to another rune (or to \<^verbatim>\<open>RuneError\<close>), which is not a space and stops the trimming.
\<close>

definition asciiSpace :: "char \<Rightarrow> bool" where
  "asciiSpace c \<longleftrightarrow> c \<in> {CHR 0x09, CHR 0x0A, CHR 0x0B, CHR 0x0C, CHR 0x0D, CHR 0x20}"

definition unicodeSpace :: "string list" where
  "unicodeSpace =
     [[CHR 0xC2, CHR 0x85], [CHR 0xC2, CHR 0xA0],
      [CHR 0xE1, CHR 0x9A, CHR 0x80],
      [CHR 0xE2, CHR 0x80, CHR 0x80], [CHR 0xE2, CHR 0x80, CHR 0x81],
      [CHR 0xE2, CHR 0x80, CHR 0x82], [CHR 0xE2, CHR 0x80, CHR 0x83],
      [CHR 0xE2, CHR 0x80, CHR 0x84], [CHR 0xE2, CHR 0x80, CHR 0x85],
      [CHR 0xE2, CHR 0x80, CHR 0x86], [CHR 0xE2, CHR 0x80, CHR 0x87],
      [CHR 0xE2, CHR 0x80, CHR 0x88], [CHR 0xE2, CHR 0x80, CHR 0x89],
      [CHR 0xE2, CHR 0x80, CHR 0x8A],
      [CHR 0xE2, CHR 0x80, CHR 0xA8], [CHR 0xE2, CHR 0x80, CHR 0xA9],
      [CHR 0xE2, CHR 0x80, CHR 0xAF],
      [CHR 0xE2, CHR 0x81, CHR 0x9F],
      [CHR 0xE3, CHR 0x80, CHR 0x80]]"

text \<open>
  The width in bytes of the white-space rune that \<open>s\<close> starts with, \<open>0\<close> when it starts
  with none; \<open>enc\<close> lists the multi-byte encodings (reversed, to read a string from its
  end).
\<close>

definition spaceWidth :: "string list \<Rightarrow> string \<Rightarrow> nat" where
  "spaceWidth enc s =
     (case s of
        [] \<Rightarrow> 0
      | c # _ \<Rightarrow>
          if asciiSpace c then 1
          else if take 2 s \<in> set enc then 2
          else if take 3 s \<in> set enc then 3
          else 0)"

function trimSpaces :: "string list \<Rightarrow> string \<Rightarrow> string" where
  "trimSpaces enc s =
     (if spaceWidth enc s = 0 then s else trimSpaces enc (drop (spaceWidth enc s) s))"
  by pat_completeness auto
termination
proof (relation "measure (\<lambda>(enc, s). length s)")
  fix enc :: "string list" and s :: string
  assume w: "spaceWidth enc s \<noteq> 0"
  then have "s \<noteq> []"
    by (cases s) (simp_all add: spaceWidth_def)
  with w show "((enc, drop (spaceWidth enc s) s), (enc, s)) \<in> measure (\<lambda>(enc, s). length s)"
    by simp
qed simp

definition TrimSpace :: "string \<Rightarrow> string" where
  "TrimSpace s = rev (trimSpaces (map rev unicodeSpace) (rev (trimSpaces unicodeSpace s)))"

subsection \<open>Errors, panics, the log\<close>

text \<open>
  An error value: the sentinel \<^verbatim>\<open>io.EOF\<close>, which the code compares with \<^verbatim>\<open>==\<close>, or any
  other error, given by its message.
\<close>

datatype error = io_EOF | Err string

fun Error :: "error \<Rightarrow> string" where
  "Error io_EOF = ''EOF''"
| "Error (Err m) = m"

text \<open>
  What running a piece of code gives: it returns a value, or it panics with a value
  (held as the text that \<^verbatim>\<open>%s\<close> prints for it).
\<close>

datatype 'a outcome = Returned 'a | Panicked string

datatype log_entry = Warn string | Debug string

subsection \<open>Proxy configuration, transports, clients\<close>

text \<open>
  Modelled from the spec: \<^verbatim>\<open>globals.ProxyConfig\<close> and the proxy-type constants are declared
  in the package \<^verbatim>\<open>globals\<close>, which is not among the sources. The spec gives the record
  \<^verbatim>\<open>{kind: enum{None, Http, Https, Socks5}, address: string}\<close>; the source names the fields
  \<^verbatim>\<open>ProxyType\<close> and \<^verbatim>\<open>Proxy\<close> and the four constants. \<open>OtherProxyType\<close> stands for every
  value of the field's type that is none of the four.
\<close>

datatype ProxyType =
  NoneProxyType | HttpProxyType | HttpsProxyType | Socks5ProxyType | OtherProxyType int

record ProxyConfig =
  ProxyType :: ProxyType
  Proxy :: string

datatype url = URL string

datatype dialer = SOCKS5Dialer string string

record tls_Config =
  InsecureSkipVerify :: bool

text \<open>
  The fields of \<^verbatim>\<open>http.Transport\<close> that the code sets: \<^verbatim>\<open>Proxy\<close> (here \<open>TransportProxy\<close>,
  the URL given to \<^verbatim>\<open>http.ProxyURL\<close>), \<^verbatim>\<open>DialContext\<close> (the dialer that the closure calls)
  and \<^verbatim>\<open>TLSClientConfig\<close> (a pointer, so an option).
\<close>

record http_Transport =
  TransportProxy :: "url option"
  DialContext :: "dialer option"
  TLSClientConfig :: "tls_Config option"

record http_Client =
  Timeout :: int
  Transport :: http_Transport

text \<open>
  \<^verbatim>\<open>http.DefaultTransport\<close> is a variable of the interface type \<^verbatim>\<open>http.RoundTripper\<close>: it
  holds a \<^verbatim>\<open>*http.Transport\<close> that points to a transport (its initial value), a
  \<^verbatim>\<open>*http.Transport\<close> that is \<^verbatim>\<open>nil\<close>, or a value of another type (named by the type's
  name). The type assertion of \<^verbatim>\<open>EventSource\<close> succeeds on the first two and panics on the
  third; the write to the field that follows it panics on the nil pointer.
\<close>

datatype RoundTripper =
  HttpTransport http_Transport | NilHttpTransport | OtherRoundTripper string

record world =
  DefaultTransport :: RoundTripper
  logs :: "log_entry list"

definition globals_Warn :: "string \<Rightarrow> world \<Rightarrow> world" where
  "globals_Warn msg w = w\<lparr>logs := logs w @ [Warn msg]\<rparr>"

definition globals_Debug :: "string \<Rightarrow> world \<Rightarrow> world" where
  "globals_Debug msg w = w\<lparr>logs := logs w @ [Debug msg]\<rparr>"

subsection \<open>Requests, responses, bodies\<close>

text \<open>
  One call of \<^verbatim>\<open>Read\<close> on a response body gives the bytes it stored (\<^verbatim>\<open>n\<close> is their
  number) and an error. A body is the sequence of the results of its successive reads; it
  need not end. (The \<^verbatim>\<open>Timeout\<close> of the client makes a read fail once 30 minutes have
  passed; time is not part of the model, which takes any sequence of reads.)
\<close>

datatype read_result = ReadResult string "error option"

type_synonym body = "read_result stream"

record http_Request =
  Method :: string
  RequestURI :: string
  Header :: "string \<rightharpoonup> string"
  RequestBody :: "string option"

record http_Response =
  StatusCode :: int
  Status :: string
  Body :: body

text \<open>
  The functions of other packages that the file calls. \<open>'v\<close> is the type of the values
  given as request bodies, \<open>'j\<close> the type of decoded JSON. \<open>Unmarshal\<close> and
  \<open>MarshalWithIndent\<close> are functions of this package declared in another file.
  \<^verbatim>\<open>client.Do\<close> sends the request and waits for the response: it runs in the world as it
  is at the call, which it is given (and which it is taken to leave as it is).
\<close>

record ('v, 'j) env =
  url_Parse :: "string \<Rightarrow> error + url"
  proxy_SOCKS5 :: "string \<Rightarrow> string \<Rightarrow> error + dialer"
  json_Marshal :: "'v \<Rightarrow> error + string"
  json_Decode :: "body \<Rightarrow> error + 'j"
  http_NewRequest :: "string \<Rightarrow> string \<Rightarrow> string option \<Rightarrow> error + http_Request"
  client_Do :: "world \<Rightarrow> http_Client \<Rightarrow> http_Request \<Rightarrow> error + http_Response"
  Unmarshal :: "string \<Rightarrow> error + 'j"
  MarshalWithIndent :: "'j \<Rightarrow> nat \<Rightarrow> string"
  debug_Stack :: string

subsection \<open>\<^verbatim>\<open>newClient\<close>\<close>

definition time_Minute :: int where
  "time_Minute = 60 * 1000000000"

definition maxTimeout :: int where
  "maxTimeout = 30 * time_Minute"

definition newClient :: "('v, 'j) env \<Rightarrow> ProxyConfig list \<Rightarrow> world \<Rightarrow> http_Client \<times> world" where
  "newClient env c w =
     (let client = \<lparr>Timeout = maxTimeout,
                    Transport = \<lparr>TransportProxy = None, DialContext = None,
                                 TLSClientConfig = Some \<lparr>InsecureSkipVerify = True\<rparr>\<rparr>\<rparr>
      in
      case c of
        [] \<Rightarrow> (client, w)
      | config # _ \<Rightarrow>
          if ProxyType config = NoneProxyType then (client, w)
          else if ProxyType config = HttpProxyType \<or> ProxyType config = HttpsProxyType then
            (case url_Parse env (Proxy config) of
               Inl err \<Rightarrow> (client, globals_Warn (''failed to parse proxy url: '' @ Error err) w)
             | Inr proxyUrl \<Rightarrow>
                 (client\<lparr>Transport :=
                    \<lparr>TransportProxy = Some proxyUrl, DialContext = None,
                     TLSClientConfig = Some \<lparr>InsecureSkipVerify = True\<rparr>\<rparr>\<rparr>,
                  globals_Debug (''[proxy] configured proxy: '' @ Proxy config) w))
          else if ProxyType config = Socks5ProxyType then
            (case proxy_SOCKS5 env ''tcp'' (Proxy config) of
               Inl err \<Rightarrow> (client, globals_Warn (''failed to create socks5 proxy: '' @ Error err) w)
             | Inr dialer \<Rightarrow>
                 (client\<lparr>Transport :=
                    \<lparr>TransportProxy = None, DialContext = Some dialer,
                     TLSClientConfig = Some \<lparr>InsecureSkipVerify = True\<rparr>\<rparr>\<rparr>,
                  globals_Debug (''[proxy] configured proxy: '' @ Proxy config) w))
          else (client, globals_Debug (''[proxy] configured proxy: '' @ Proxy config) w))"

subsection \<open>The request helpers\<close>

text \<open>
  \<^verbatim>\<open>fillHeaders\<close> sets every entry of the map on the request. (\<^verbatim>\<open>Header.Set\<close> also puts
  the key in canonical form, which is left out: keys are taken as they are.)
\<close>

definition fillHeaders :: "http_Request \<Rightarrow> (string \<rightharpoonup> string) \<Rightarrow> http_Request" where
  "fillHeaders req headers = req\<lparr>Header := Header req ++ headers\<rparr>"

text \<open>
  \<^verbatim>\<open>ConvertBody\<close>: the result \<^verbatim>\<open>form\<close> is an interface value, \<^verbatim>\<open>nil\<close> unless the encoding
  succeeded; a reader over a byte buffer is given by the bytes.
\<close>

definition ConvertBody :: "('v, 'j) env \<Rightarrow> 'v \<Rightarrow> string option" where
  "ConvertBody env body =
     (case json_Marshal env body of
        Inr buffer \<Rightarrow> Some buffer
      | Inl err \<Rightarrow> None)"

text \<open>
  \<^verbatim>\<open>io.ReadAll\<close>: reads until a read gives an error, keeps the bytes of every read
  (those of the last one too), and gives \<^verbatim>\<open>nil\<close> for \<^verbatim>\<open>io.EOF\<close>. On a body that never
  ends it does not return: the value \<open>None\<close>.
\<close>

partial_function (option) ReadAll :: "string \<Rightarrow> body \<Rightarrow> (string \<times> error option) option" where
  "ReadAll b r =
     (case shd r of
        ReadResult bs err \<Rightarrow>
          (case err of
             None \<Rightarrow> ReadAll (b @ bs) (stl r)
           | Some e \<Rightarrow> Some (b @ bs, if e = io_EOF then None else Some e)))"

text \<open>
  \<^verbatim>\<open>Http\<close> decodes the response into \<^verbatim>\<open>ptr\<close> and returns the error: the model gives the
  error or the decoded value. (The decoder is a parameter, taken to return on every body.)
\<close>

definition Http ::
  "('v, 'j) env \<Rightarrow> string \<Rightarrow> string \<Rightarrow> (string \<rightharpoonup> string) \<Rightarrow> string option \<Rightarrow>
   ProxyConfig list \<Rightarrow> world \<Rightarrow> (error + 'j) \<times> world" where
  "Http env uri method headers body config w =
     (case http_NewRequest env method uri body of
        Inl err \<Rightarrow> (Inl err, w)
      | Inr req \<Rightarrow>
          (case newClient env config w of
             (client, w') \<Rightarrow>
               (case client_Do env w' client (fillHeaders req headers) of
                  Inl err \<Rightarrow> (Inl err, w')
                | Inr resp \<Rightarrow> (json_Decode env (Body resp), w'))))"

definition HttpRaw ::
  "('v, 'j) env \<Rightarrow> string \<Rightarrow> string \<Rightarrow> (string \<rightharpoonup> string) \<Rightarrow> string option \<Rightarrow>
   ProxyConfig list \<Rightarrow> world \<Rightarrow> ((error + string) \<times> world) option" where
  "HttpRaw env uri method headers body config w =
     (case http_NewRequest env method uri body of
        Inl err \<Rightarrow> Some (Inl err, w)
      | Inr req \<Rightarrow>
          (case newClient env config w of
             (client, w') \<Rightarrow>
               (case client_Do env w' client (fillHeaders req headers) of
                  Inl err \<Rightarrow> Some (Inl err, w')
                | Inr resp \<Rightarrow>
                    (case ReadAll [] (Body resp) of
                       None \<Rightarrow> None
                     | Some (data, None) \<Rightarrow> Some (Inr data, w')
                     | Some (data, Some err) \<Rightarrow> Some (Inl err, w')))))"

definition http_MethodGet :: string where
  "http_MethodGet = ''GET''"

definition http_MethodPost :: string where
  "http_MethodPost = ''POST''"

definition Get ::
  "('v, 'j) env \<Rightarrow> string \<Rightarrow> (string \<rightharpoonup> string) \<Rightarrow> ProxyConfig list \<Rightarrow> world \<Rightarrow>
   (error + 'j) \<times> world" where
  "Get env uri headers config w = Http env uri http_MethodGet headers None config w"

definition GetRaw ::
  "('v, 'j) env \<Rightarrow> string \<Rightarrow> (string \<rightharpoonup> string) \<Rightarrow> ProxyConfig list \<Rightarrow> world \<Rightarrow>
   ((error + string) \<times> world) option" where
  "GetRaw env uri headers config w = HttpRaw env uri http_MethodGet headers None config w"

definition Post ::
  "('v, 'j) env \<Rightarrow> string \<Rightarrow> (string \<rightharpoonup> string) \<Rightarrow> 'v \<Rightarrow> ProxyConfig list \<Rightarrow> world \<Rightarrow>
   (error + 'j) \<times> world" where
  "Post env uri headers body config w =
     Http env uri http_MethodPost headers (ConvertBody env body) config w"

definition PostRaw ::
  "('v, 'j) env \<Rightarrow> string \<Rightarrow> (string \<rightharpoonup> string) \<Rightarrow> 'v \<Rightarrow> ProxyConfig list \<Rightarrow> world \<Rightarrow>
   ((error + string) \<times> world) option" where
  "PostRaw env uri headers body config w =
     HttpRaw env uri http_MethodPost headers (ConvertBody env body) config w"

subsection \<open>\<^verbatim>\<open>EventSource\<close>\<close>

text \<open>
  The callback is a closure: it has a state of its own (\<open>'s\<close>), which a call may change,
  and a call returns an error (or \<^verbatim>\<open>nil\<close>) or panics. It is taken to leave the log and
  the default transport alone.
\<close>

type_synonym 's callback = "'s \<Rightarrow> string \<Rightarrow> (error option) outcome \<times> 's"

text \<open>
  The inner loop, \<^verbatim>\<open>for _, item := range strings.Split(data, "\n")\<close>. It leaves the
  function (\<open>Some\<close>: the callback returned an error, or panicked) or runs to the end of
  the items (\<open>None\<close>). \<open>acc\<close> collects the segments given to the callback so far.
\<close>

fun range_items ::
  "'s callback \<Rightarrow> 's \<Rightarrow> string list \<Rightarrow> string list \<Rightarrow>
   (error option) outcome option \<times> 's \<times> string list" where
  "range_items callback st acc [] = (None, st, acc)"
| "range_items callback st acc (item # items) =
     (let segment = TrimSpace item in
      if length segment > 0 then
        (case callback st segment of
           (Panicked v, st') \<Rightarrow> (Some (Panicked v), st', acc @ [segment])
         | (Returned (Some err), st') \<Rightarrow> (Some (Returned (Some err)), st', acc @ [segment])
         | (Returned None, st') \<Rightarrow> range_items callback st' (acc @ [segment]) items)
      else range_items callback st acc items)"

text \<open>Decimal digits of a number, for the text of a run-time error.\<close>

fun itoa :: "nat \<Rightarrow> string" where
  "itoa n = (if n < 10 then [''0123456789'' ! n] else itoa (n div 10) @ [''0123456789'' ! (n mod 10)])"

declare itoa.simps [simp del]

text \<open>
  The outer loop, \<^verbatim>\<open>for { ... }\<close>. The buffer has 20480 bytes; \<^verbatim>\<open>buf[:n]\<close> panics when a
  reader reports more than that. The loop ends only on a read with an error, on an error
  or a panic of the callback, or on that run-time panic: on a body of reads without error
  whose segments the callback accepts it runs forever, the value \<open>None\<close>.
\<close>

partial_function (option) stream_loop ::
  "'s callback \<Rightarrow> 's \<Rightarrow> string list \<Rightarrow> body \<Rightarrow>
   ((error option) outcome \<times> 's \<times> string list) option" where
  "stream_loop callback st acc r =
     (case shd r of
        ReadResult data err \<Rightarrow>
          if err = Some io_EOF then Some (Returned None, st, acc)
          else if err \<noteq> None then Some (Returned err, st, acc)
          else if length data > 20480 then
            Some (Panicked (''runtime error: slice bounds out of range [:'' @ itoa (length data)
                            @ ''] with capacity 20480''), st, acc)
          else
            (case range_items callback st acc (Split data) of
               (Some out, st', acc') \<Rightarrow> Some (out, st', acc')
             | (None, st', acc') \<Rightarrow> stream_loop callback st' acc' (stl r)))"

text \<open>What a call of \<^verbatim>\<open>EventSource\<close> leaves behind when it returns.\<close>

record 's finished =
  returned :: "error option"
  cb_state :: 's
  delivered :: "string list"
  world_after :: world

definition status_error :: "('v, 'j) env \<Rightarrow> http_Response \<Rightarrow> string \<times> error option \<Rightarrow> error" where
  "status_error env res rd =
     (case rd of
        (content, None) \<Rightarrow>
          (case Unmarshal env content of
             Inr form \<Rightarrow>
               Err (''request failed with status: '' @ Status res @ [CHR 0x0A] @ ''```json''
                    @ [CHR 0x0A] @ MarshalWithIndent env form 2 @ [CHR 0x0A] @ ''```'')
           | Inl err \<Rightarrow> Err (''request failed with status: '' @ Status res))
      | (content, Some err) \<Rightarrow> Err (''request failed with status: '' @ Status res))"

text \<open>
  The body of \<^verbatim>\<open>EventSource\<close>, before the deferred recovery: it returns an error (or
  \<^verbatim>\<open>nil\<close>), or panics, or does not return (\<open>None\<close>).
\<close>

definition EventSource_body ::
  "('v, 'j) env \<Rightarrow> string \<Rightarrow> string \<Rightarrow> (string \<rightharpoonup> string) \<Rightarrow> 'v \<Rightarrow> 's callback \<Rightarrow> 's \<Rightarrow>
   ProxyConfig list \<Rightarrow> world \<Rightarrow> ((error option) outcome \<times> 's \<times> string list \<times> world) option" where
  "EventSource_body env method uri headers body callback st config w =
     (case DefaultTransport w of
        OtherRoundTripper ty \<Rightarrow>
          Some (Panicked (''interface conversion: http.RoundTripper is '' @ ty
                          @ '', not *http.Transport''), st, [], w)
      | NilHttpTransport \<Rightarrow>
          Some (Panicked ''runtime error: invalid memory address or nil pointer dereference'',
                st, [], w)
      | HttpTransport t \<Rightarrow>
          (case newClient env config
                  (w\<lparr>DefaultTransport :=
                       HttpTransport (t\<lparr>TLSClientConfig := Some \<lparr>InsecureSkipVerify = True\<rparr>\<rparr>)\<rparr>) of
             (client, w') \<Rightarrow>
               (case http_NewRequest env method uri (ConvertBody env body) of
                  Inl err \<Rightarrow> Some (Returned (Some err), st, [], w')
                | Inr req \<Rightarrow>
                    (case client_Do env w' client (fillHeaders req headers) of
                       Inl err \<Rightarrow> Some (Returned (Some err), st, [], w')
                     | Inr res \<Rightarrow>
                         if StatusCode res \<ge> 400 then
                           (case ReadAll [] (Body res) of
                              None \<Rightarrow> None
                            | Some rd \<Rightarrow> Some (Returned (Some (status_error env res rd)), st, [], w'))
                         else
                           (case stream_loop callback st [] (Body res) of
                              None \<Rightarrow> None
                            | Some (out, st', acc) \<Rightarrow> Some (out, st', acc, w'))))))"

text \<open>
  \<^verbatim>\<open>EventSource\<close>: the deferred function recovers a panic, logs it, and the function
  returns the zero value of its unnamed result, \<^verbatim>\<open>nil\<close>. (The value of a panic is taken
  to be non-nil, so that \<^verbatim>\<open>recover\<close> gives a value to log; a fatal run-time error, which
  no \<^verbatim>\<open>recover\<close> stops, is not modelled.)
\<close>

definition EventSource ::
  "('v, 'j) env \<Rightarrow> string \<Rightarrow> string \<Rightarrow> (string \<rightharpoonup> string) \<Rightarrow> 'v \<Rightarrow> 's callback \<Rightarrow> 's \<Rightarrow>
   ProxyConfig list \<Rightarrow> world \<Rightarrow> 's finished option" where
  "EventSource env method uri headers body callback st config w =
     (case EventSource_body env method uri headers body callback st config w of
        None \<Rightarrow> None
      | Some (Returned err, st', acc, w') \<Rightarrow>
          Some \<lparr>returned = err, cb_state = st', delivered = acc, world_after = w'\<rparr>
      | Some (Panicked v, st', acc, w') \<Rightarrow>
          Some \<lparr>returned = None, cb_state = st', delivered = acc,
                world_after =
                  globals_Warn (''event source panic: '' @ v @ '' (uri: '' @ uri @ '', method: ''
                                @ method @ '')'' @ [CHR 0x0A] @ debug_Stack env) w'\<rparr>)"

subsection \<open>The streaming behaviour in the words of the specification\<close>

text \<open>
  The segments of one chunk: the chunk split on newlines, each piece trimmed, the empty
  pieces dropped.
\<close>

definition segments :: "string \<Rightarrow> string list" where
  "segments data = filter (\<lambda>piece. piece \<noteq> []) (map TrimSpace (Split data))"

text \<open>
  Passing segments to the callback one at a time and in order, until it returns an error
  or panics: \<open>None\<close> when it accepted them all, and the state of the callback and the
  segments it was given (after those of \<open>acc\<close>).
\<close>

fun feed ::
  "'s callback \<Rightarrow> 's \<Rightarrow> string list \<Rightarrow> string list \<Rightarrow>
   (error option) outcome option \<times> 's \<times> string list" where
  "feed callback st acc [] = (None, st, acc)"
| "feed callback st acc (seg # segs) =
     (case callback st seg of
        (Returned None, st') \<Rightarrow> feed callback st' (acc @ [seg]) segs
      | (Returned (Some err), st') \<Rightarrow> (Some (Returned (Some err)), st', acc @ [seg])
      | (Panicked v, st') \<Rightarrow> (Some (Panicked v), st', acc @ [seg]))"

text \<open>Reads that give a chunk each and no error.\<close>

abbreviation reads :: "string list \<Rightarrow> read_result list" where
  "reads cs \<equiv> map (\<lambda>c. ReadResult c None) cs"

text \<open>The client that \<^verbatim>\<open>newClient\<close> starts from: no proxy, no dialer of its own.\<close>

definition direct_client :: http_Client where
  "direct_client =
     \<lparr>Timeout = maxTimeout,
      Transport = \<lparr>TransportProxy = None, DialContext = None,
                   TLSClientConfig = Some \<lparr>InsecureSkipVerify = True\<rparr>\<rparr>\<rparr>"

text \<open>
  The call of \<^verbatim>\<open>EventSource\<close> gets as far as a response: the default transport is a
  \<^verbatim>\<open>*http.Transport\<close> that is not \<^verbatim>\<open>nil\<close>, the request can be built, and the client
  returns \<open>res\<close> for it.
\<close>

definition answered ::
  "('v, 'j) env \<Rightarrow> string \<Rightarrow> string \<Rightarrow> (string \<rightharpoonup> string) \<Rightarrow> 'v \<Rightarrow> ProxyConfig list \<Rightarrow>
   world \<Rightarrow> http_Response \<Rightarrow> bool" where
  "answered env method uri headers body config w res \<longleftrightarrow>
     (\<exists>t req client w'.
        DefaultTransport w = HttpTransport t \<and>
        http_NewRequest env method uri (ConvertBody env body) = Inr req \<and>
        newClient env config
          (w\<lparr>DefaultTransport :=
               HttpTransport (t\<lparr>TLSClientConfig := Some \<lparr>InsecureSkipVerify = True\<rparr>\<rparr>)\<rparr>)
          = (client, w') \<and>
        client_Do env w' client (fillHeaders req headers) = Inr res)"

subsection \<open>Concrete inputs\<close>

text \<open>
  An environment in which every request is answered with \<open>res\<close>. Request bodies and
  decoded JSON are strings; the value \<open>''chan''\<close> cannot be encoded, only \<open>''{}''\<close> parses
  as an object, the address \<open>''://bad''\<close> is no URL and no dialer can be made for the empty
  address.
\<close>

definition serve :: "http_Response \<Rightarrow> (string, string) env" where
  "serve res =
     \<lparr>url_Parse = (\<lambda>a. if a = ''://bad'' then Inl (Err ''missing protocol scheme'') else Inr (URL a)),
      proxy_SOCKS5 = (\<lambda>n a. if a = [] then Inl (Err ''no address'') else Inr (SOCKS5Dialer n a)),
      json_Marshal = (\<lambda>v. if v = ''chan'' then Inl (Err ''unsupported type'') else Inr v),
      json_Decode = (\<lambda>r. Inr ''null''),
      http_NewRequest =
        (\<lambda>m u b. Inr \<lparr>Method = m, RequestURI = u, Header = Map.empty, RequestBody = b\<rparr>),
      client_Do = (\<lambda>w c r. Inr res),
      Unmarshal = (\<lambda>content. if content = ''{}'' then Inr ''{}'' else Inl (Err ''invalid'')),
      MarshalWithIndent = (\<lambda>form n. form),
      debug_Stack = ''goroutine 1 [running]''\<rparr>"

text \<open>
  A response whose body gives the reads \<open>rs\<close>, then \<open>final\<close>, and from then on no bytes
  and \<^verbatim>\<open>io.EOF\<close>.
\<close>

definition response :: "int \<Rightarrow> string \<Rightarrow> read_result list \<Rightarrow> read_result \<Rightarrow> http_Response" where
  "response code status rs final =
     \<lparr>StatusCode = code, Status = status,
      Body = rs @- (final ## sconst (ReadResult [] (Some io_EOF)))\<rparr>"

text \<open>A response whose body never ends: after \<open>rs\<close>, every read gives \<^verbatim>\<open>"x\n"\<close>.\<close>

definition endless :: "int \<Rightarrow> string \<Rightarrow> read_result list \<Rightarrow> http_Response" where
  "endless code status rs =
     \<lparr>StatusCode = code, Status = status, Body = rs @- sconst (ReadResult ''x\<newline>'' None)\<rparr>"

definition world0 :: world where
  "world0 =
     \<lparr>DefaultTransport =
        HttpTransport \<lparr>TransportProxy = None, DialContext = None, TLSClientConfig = None\<rparr>,
      logs = []\<rparr>"

definition world_replaced :: world where
  "world_replaced = \<lparr>DefaultTransport = OtherRoundTripper ''*trace.Transport'', logs = []\<rparr>"

definition world_nil :: world where
  "world_nil = \<lparr>DefaultTransport = NilHttpTransport, logs = []\<rparr>"

text \<open>
  A callback that keeps the segments it was given, and whose call number \<open>k\<close> (from 0)
  gives \<open>out\<close>; the others return \<^verbatim>\<open>nil\<close>.
\<close>

definition on_call :: "nat \<Rightarrow> (error option) outcome \<Rightarrow> (string list) callback" where
  "on_call k out st seg = (if length st = k then out else Returned None, st @ [seg])"

definition collect :: "(string list) callback" where
  "collect st seg = (Returned None, st @ [seg])"

text \<open>The read at the end of a body: no bytes, and \<^verbatim>\<open>io.EOF\<close>.\<close>

definition eof :: read_result where
  "eof = ReadResult [] (Some io_EOF)"

text \<open>A call of \<^verbatim>\<open>EventSource\<close> that is answered with \<open>res\<close>.\<close>

definition run ::
  "http_Response \<Rightarrow> (string list) callback \<Rightarrow> world \<Rightarrow> (string list) finished option" where
  "run res callback w =
     EventSource (serve res) ''GET'' ''http://h/events'' Map.empty ''{}'' callback [] [] w"


text \<open>
  An environment whose server answers with the body of the request, and with no bytes when
  the request has none; its decoder gives the text of the body, and \<^verbatim>\<open>io.EOF\<close> on a body
  without bytes.
\<close>

definition echo :: "(string, string) env" where
  "echo =
     (serve (response 200 ''200 OK'' [] eof))
       \<lparr>client_Do :=
          (\<lambda>w c r. Inr (response 200 ''200 OK''
                          (case RequestBody r of None \<Rightarrow> [] | Some b \<Rightarrow> [ReadResult b None]) eof)),
        json_Decode :=
          (\<lambda>r. case shd r of ReadResult bs err \<Rightarrow> if bs = [] then Inl io_EOF else Inr bs)\<rparr>"

text \<open>
  An environment whose client answers with \<open>res\<close> only in a world where the default
  transport has certificate verification disabled, and fails otherwise.
\<close>

definition verification_off :: "world \<Rightarrow> bool" where
  "verification_off w =
     (case DefaultTransport w of
        HttpTransport t \<Rightarrow> TLSClientConfig t = Some \<lparr>InsecureSkipVerify = True\<rparr>
      | NilHttpTransport \<Rightarrow> False
      | OtherRoundTripper ty \<Rightarrow> False)"

definition guarded :: "http_Response \<Rightarrow> world \<Rightarrow> http_Client \<Rightarrow> http_Request \<Rightarrow> error + http_Response" where
  "guarded res w c r =
     (if verification_off w then Inr res else Inl (Err ''certificate signed by unknown authority''))"

section \<open>Properties\<close>

subsection \<open>The loops\<close>

lemma range_items_feed:
  "range_items callback st acc items =
     feed callback st acc (filter (\<lambda>piece. piece \<noteq> []) (map TrimSpace items))"
  by (induction items arbitrary: st acc)
     (auto simp: Let_def split: prod.splits outcome.splits option.splits)

lemma feed_append:
  "feed callback st acc (xs @ ys) =
     (case feed callback st acc xs of
        (None, st', acc') \<Rightarrow> feed callback st' acc' ys
      | (Some out, st', acc') \<Rightarrow> (Some out, st', acc'))"
  by (induction xs arbitrary: st acc)
     (auto split: prod.splits outcome.splits option.splits)

lemma feed_all_delivered:
  "feed callback st acc segs = (None, st', acc') \<Longrightarrow> acc' = acc @ segs"
proof (induction segs arbitrary: st acc)
  case Nil
  then show ?case by simp
next
  case (Cons seg segs)
  from Cons.prems obtain st1 where "feed callback st1 (acc @ [seg]) segs = (None, st', acc')"
    by (auto split: prod.splits outcome.splits option.splits)
  from Cons.IH [OF this] show ?case by simp
qed

lemma stream_loop_EOF:
  "stream_loop callback st acc (ReadResult data (Some io_EOF) ## r) = Some (Returned None, st, acc)"
  by (subst stream_loop.simps) simp

lemma stream_loop_error:
  "e \<noteq> io_EOF \<Longrightarrow>
   stream_loop callback st acc (ReadResult data (Some e) ## r) = Some (Returned (Some e), st, acc)"
  by (subst stream_loop.simps) simp

lemma stream_loop_slice:
  "20480 < length data \<Longrightarrow>
   stream_loop callback st acc (ReadResult data None ## r) =
     Some (Panicked (''runtime error: slice bounds out of range [:'' @ itoa (length data)
                     @ ''] with capacity 20480''), st, acc)"
  by (subst stream_loop.simps) simp

lemma stream_loop_chunk:
  "length data \<le> 20480 \<Longrightarrow>
   stream_loop callback st acc (ReadResult data None ## r) =
     (case feed callback st acc (segments data) of
        (Some out, st', acc') \<Rightarrow> Some (out, st', acc')
      | (None, st', acc') \<Rightarrow> stream_loop callback st' acc' r)"
  by (subst stream_loop.simps)
     (simp add: range_items_feed segments_def split: prod.splits option.splits)

text \<open>
  The two nested loops are one pass over the segments of the chunks, taken chunk by
  chunk.
\<close>

lemma stream_loop_chunks:
  "\<forall>c \<in> set cs. length c \<le> 20480 \<Longrightarrow>
   stream_loop callback st acc (reads cs @- r) =
     (case feed callback st acc (concat (map segments cs)) of
        (Some out, st', acc') \<Rightarrow> Some (out, st', acc')
      | (None, st', acc') \<Rightarrow> stream_loop callback st' acc' r)"
proof (induction cs arbitrary: st acc)
  case Nil
  then show ?case by simp
next
  case (Cons c cs)
  then have len: "length c \<le> 20480" and rest: "\<forall>c \<in> set cs. length c \<le> 20480"
    by simp_all
  show ?case
  proof (cases "feed callback st acc (segments c)")
    case (fields out st1 acc1)
    then show ?thesis
      using Cons.IH [OF rest, of st1 acc1]
      by (cases out) (simp_all add: stream_loop_chunk [OF len] feed_append)
  qed
qed

lemma ReadAll_ends:
  "ReadAll b (reads cs @- (ReadResult bs (Some e) ## r)) =
     Some (b @ concat cs @ bs, if e = io_EOF then None else Some e)"
proof (induction cs arbitrary: b)
  case Nil
  show ?case by (subst ReadAll.simps) simp
next
  case (Cons c cs)
  show ?case by (subst ReadAll.simps) (simp add: Cons.IH)
qed

subsection \<open>Trimming\<close>








subsection \<open>\<^verbatim>\<open>newClient\<close> and the world\<close>

lemma newClient_DefaultTransport:
  "DefaultTransport (snd (newClient env c w)) = DefaultTransport w"
  by (simp add: newClient_def globals_Warn_def globals_Debug_def Let_def
           split: list.splits sum.splits)

lemma newClient_logs:
  "\<exists>ls. logs (snd (newClient env c w)) = logs w @ ls"
  by (simp add: newClient_def globals_Warn_def globals_Debug_def Let_def
           split: list.splits sum.splits)

lemma newClient_client_Do: "newClient (env\<lparr>client_Do := f\<rparr>) c w = newClient env c w"
  by (simp add: newClient_def Let_def split: list.splits)

lemma status_error_client_Do:
  "status_error (env\<lparr>client_Do := f\<rparr>) res rd = status_error env res rd"
  by (simp add: status_error_def split: prod.splits option.splits sum.splits)

lemma ConvertBody_client_Do: "ConvertBody (env\<lparr>client_Do := f\<rparr>) body = ConvertBody env body"
  by (simp add: ConvertBody_def)

subsection \<open>The concrete inputs\<close>

lemma answered_serve:
  "answered (serve res) ''GET'' ''http://h/events'' Map.empty ''{}'' [] world0 res"
  by (simp add: answered_def serve_def world0_def newClient_def)

lemma response_simps:
  "StatusCode (response code status rs final) = code"
  "Status (response code status rs final) = status"
  "Body (response code status rs final) = rs @- (final ## sconst (ReadResult [] (Some io_EOF)))"
  by (simp_all add: response_def)

lemma endless_simps:
  "StatusCode (endless code status rs) = code"
  "Body (endless code status rs) = rs @- sconst (ReadResult ''x\<newline>'' None)"
  by (simp_all add: endless_def)

lemma segments_examples:
  "segments ''a\<newline>b\<newline>\<newline>c'' = [''a'', ''b'', ''c'']"
  "segments ''ab'' = [''ab'']"
  "segments ''c\<newline>'' = [''c'']"
  "segments ''a\<newline>b\<newline>c\<newline>'' = [''a'', ''b'', ''c'']"
  "segments ''a\<newline>'' = [''a'']"
  by code_simp+


lemma segments_x: "segments ''x\<newline>'' = [''x'']"
  by code_simp

text \<open>
  On the body that never ends, with the callback that accepts every segment, the loop
  does not return.
\<close>

lemma stream_loop_endless_aux:
  assumes "stream_loop callback st acc r = Some y"
  shows "\<not> (callback = collect \<and> r = sconst (ReadResult ''x\<newline>'' None))"
proof (rule stream_loop.raw_induct
    [where P = "\<lambda>c st acc r y. \<not> (c = collect \<and> r = sconst (ReadResult ''x\<newline>'' None))",
      OF _ assms])
  fix loop :: "(string list) callback \<Rightarrow> string list \<Rightarrow> string list \<Rightarrow> body \<Rightarrow>
      ((error option) outcome \<times> string list \<times> string list) option"
  fix c :: "(string list) callback" and s a :: "string list" and b :: body
  fix z :: "(error option) outcome \<times> string list \<times> string list"
  assume IH: "\<And>c s a b z. loop c s a b = Some z \<Longrightarrow>
      \<not> (c = collect \<and> b = sconst (ReadResult ''x\<newline>'' None))"
  assume step: "(case shd b of
      ReadResult data err \<Rightarrow>
        if err = Some io_EOF then Some (Returned None, s, a)
        else if err \<noteq> None then Some (Returned err, s, a)
             else if 20480 < length data
                  then Some
                        (Panicked
                          (''runtime error: slice bounds out of range [:'' @
                           itoa (length data) @ ''] with capacity 20480''),
                         s, a)
                  else case range_items c s a (Split data) of
                       (None, st', acc') \<Rightarrow> loop c st' acc' (stl b)
                       | (Some out, st', acc') \<Rightarrow> Some (out, st', acc')) = Some z"
  show "\<not> (c = collect \<and> b = sconst (ReadResult ''x\<newline>'' None))"
  proof
    assume c: "c = collect \<and> b = sconst (ReadResult ''x\<newline>'' None)"
    then have shd: "shd b = ReadResult ''x\<newline>'' None" and stl: "stl b = b"
      by simp_all
    have ri: "range_items collect s a (Split ''x\<newline>'') = (None, s @ [''x''], a @ [''x''])"
      using segments_x by (simp add: range_items_feed segments_def collect_def)
    from step c ri have "loop collect (s @ [''x'']) (a @ [''x'']) b = Some z"
      by (simp add: shd stl)
    from IH [OF this] c show False by simp
  qed
qed

lemma stream_loop_endless:
  "stream_loop collect st acc (sconst (ReadResult ''x\<newline>'' None)) = None"
  using stream_loop_endless_aux [of collect st acc "sconst (ReadResult ''x\<newline>'' None)"]
  by (cases "stream_loop collect st acc (sconst (ReadResult ''x\<newline>'' None))") auto

subsection \<open>The client factory\<close>

text \<open>
  C8: for every list of proxy configurations, the client that \<^verbatim>\<open>newClient\<close> returns has
  the timeout of 30 minutes (1800000000000 nanoseconds) and a TLS configuration with
  certificate verification disabled, in every branch; and the result depends only on the
  first element of the list.
\<close>

theorem newClient_timeout_tls_first:
  "Timeout (fst (newClient env c w)) = 1800000000000 \<and>
   TLSClientConfig (Transport (fst (newClient env c w))) = Some \<lparr>InsecureSkipVerify = True\<rparr> \<and>
   newClient env c w = newClient env (take 1 c) w"
proof (intro conjI)
  show "Timeout (fst (newClient env c w)) = 1800000000000"
    by (simp add: newClient_def maxTimeout_def time_Minute_def Let_def
             split: list.splits sum.splits)
  show "TLSClientConfig (Transport (fst (newClient env c w))) = Some \<lparr>InsecureSkipVerify = True\<rparr>"
    by (simp add: newClient_def Let_def split: list.splits sum.splits)
  show "newClient env c w = newClient env (take 1 c) w"
    by (cases c) (simp_all add: newClient_def)
qed

text \<open>
  C7: when the kind is HTTP or HTTPS and the address does not parse as a URL, or the kind
  is SOCKS5 and the dialer cannot be made, \<^verbatim>\<open>newClient\<close> logs a warning and returns the
  direct client; for a kind that is none of the four constants it returns the direct
  client too (and logs the debug line). It returns a client in every case: its result has
  no error and is no pointer that could be \<^verbatim>\<open>nil\<close>.
\<close>

theorem newClient_degrades:
  "((ProxyType cfg = HttpProxyType \<or> ProxyType cfg = HttpsProxyType)
      \<and> url_Parse env (Proxy cfg) = Inl err \<longrightarrow>
      newClient env (cfg # others) w =
        (direct_client, globals_Warn (''failed to parse proxy url: '' @ Error err) w))
   \<and> (ProxyType cfg = Socks5ProxyType \<and> proxy_SOCKS5 env ''tcp'' (Proxy cfg) = Inl err \<longrightarrow>
      newClient env (cfg # others) w =
        (direct_client, globals_Warn (''failed to create socks5 proxy: '' @ Error err) w))
   \<and> (ProxyType cfg = OtherProxyType k \<longrightarrow>
      newClient env (cfg # others) w =
        (direct_client, globals_Debug (''[proxy] configured proxy: '' @ Proxy cfg) w))"
  by (auto simp: newClient_def direct_client_def Let_def)

theorem newClient_degrades_witness:
  "newClient (serve (response 200 ''200 OK'' [] eof))
     [\<lparr>ProxyType = HttpsProxyType, Proxy = ''://bad''\<rparr>] world0 =
     (direct_client,
      world0\<lparr>logs := [Warn ''failed to parse proxy url: missing protocol scheme'']\<rparr>)
   \<and> newClient (serve (response 200 ''200 OK'' [] eof))
     [\<lparr>ProxyType = Socks5ProxyType, Proxy = ''''\<rparr>] world0 =
     (direct_client, world0\<lparr>logs := [Warn ''failed to create socks5 proxy: no address'']\<rparr>)
   \<and> newClient (serve (response 200 ''200 OK'' [] eof))
     [\<lparr>ProxyType = OtherProxyType 7, Proxy = ''10.0.0.1:80''\<rparr>] world0 =
     (direct_client, world0\<lparr>logs := [Debug ''[proxy] configured proxy: 10.0.0.1:80'']\<rparr>)"
  using
    newClient_degrades [of "\<lparr>ProxyType = HttpsProxyType, Proxy = ''://bad''\<rparr>"
      "serve (response 200 ''200 OK'' [] eof)" "Err ''missing protocol scheme''" "[]" world0 0]
    newClient_degrades [of "\<lparr>ProxyType = Socks5ProxyType, Proxy = ''''\<rparr>"
      "serve (response 200 ''200 OK'' [] eof)" "Err ''no address''" "[]" world0 0]
    newClient_degrades [of "\<lparr>ProxyType = OtherProxyType 7, Proxy = ''10.0.0.1:80''\<rparr>"
      "serve (response 200 ''200 OK'' [] eof)" "Err ''x''" "[]" world0 7]
  by (simp add: serve_def globals_Warn_def globals_Debug_def world0_def)

subsection \<open>The body of a POST\<close>

text \<open>
  C10: when encoding the body value fails, \<^verbatim>\<open>ConvertBody\<close> gives \<^verbatim>\<open>nil\<close>, and \<^verbatim>\<open>Post\<close> and
  \<^verbatim>\<open>PostRaw\<close> build the request with the method \<^verbatim>\<open>POST\<close>, the URI and no body, set the
  headers on it and send it with the client of \<^verbatim>\<open>newClient\<close>. What they return is the
  error of building the request, the error of sending it, or what decoding (or reading) the
  response gives: the encoding error is in none of them. When encoding succeeds,
  \<^verbatim>\<open>ConvertBody\<close> gives a reader over the encoded bytes.
\<close>

theorem ConvertBody_Post:
  "(json_Marshal env body = Inl err \<longrightarrow>
      ConvertBody env body = None
      \<and> Post env uri headers body config w =
          (case http_NewRequest env http_MethodPost uri None of
             Inl e \<Rightarrow> (Inl e, w)
           | Inr req \<Rightarrow>
               (case client_Do env (snd (newClient env config w)) (fst (newClient env config w))
                       (fillHeaders req headers) of
                  Inl e \<Rightarrow> (Inl e, snd (newClient env config w))
                | Inr resp \<Rightarrow> (json_Decode env (Body resp), snd (newClient env config w))))
      \<and> PostRaw env uri headers body config w =
          (case http_NewRequest env http_MethodPost uri None of
             Inl e \<Rightarrow> Some (Inl e, w)
           | Inr req \<Rightarrow>
               (case client_Do env (snd (newClient env config w)) (fst (newClient env config w))
                       (fillHeaders req headers) of
                  Inl e \<Rightarrow> Some (Inl e, snd (newClient env config w))
                | Inr resp \<Rightarrow>
                    (case ReadAll [] (Body resp) of
                       None \<Rightarrow> None
                     | Some (data, None) \<Rightarrow> Some (Inr data, snd (newClient env config w))
                     | Some (data, Some e) \<Rightarrow> Some (Inl e, snd (newClient env config w))))))
   \<and> (json_Marshal env body = Inr buffer \<longrightarrow> ConvertBody env body = Some buffer)"
  by (cases "newClient env config w")
     (simp add: ConvertBody_def Post_def PostRaw_def Http_def HttpRaw_def
           split: sum.splits option.splits prod.splits)

theorem ConvertBody_Post_witness:
  "ConvertBody echo ''chan'' = None
   \<and> Post echo ''http://h/'' Map.empty ''chan'' [] world0 = (Inl io_EOF, world0)
   \<and> PostRaw echo ''http://h/'' Map.empty ''chan'' [] world0 = Some (Inr [], world0)
   \<and> ConvertBody echo ''7'' = Some ''7''
   \<and> Post echo ''http://h/'' Map.empty ''7'' [] world0 = (Inr ''7'', world0)"
proof -
  let ?req = "\<lparr>Method = http_MethodPost, RequestURI = ''http://h/'', Header = Map.empty,
               RequestBody = None\<rparr>"
  let ?silent = "response 200 ''200 OK'' [] eof"
  have fail: "json_Marshal echo ''chan'' = Inl (Err ''unsupported type'')"
    and good: "json_Marshal echo ''7'' = Inr ''7''"
    by (simp_all add: echo_def serve_def)
  have nc: "newClient echo [] world0 = (direct_client, world0)"
    by (simp add: newClient_def direct_client_def)
  have nr: "http_NewRequest echo http_MethodPost ''http://h/'' None = Inr ?req"
    by (simp add: echo_def serve_def)
  have sent: "client_Do echo world0 direct_client (fillHeaders ?req Map.empty) = Inr ?silent"
    by (simp add: echo_def serve_def fillHeaders_def)
  have dec: "json_Decode echo (Body ?silent) = Inl io_EOF"
    by (simp add: echo_def serve_def response_simps eof_def)
  have "ReadAll [] (reads [] @- (ReadResult [] (Some io_EOF) ## sconst (ReadResult [] (Some io_EOF))))
      = Some ([], None)"
    using ReadAll_ends [of "[]" "[]" "[]" io_EOF] by simp
  then have raw: "ReadAll [] (Body ?silent) = Some ([], None)"
    by (simp add: response_simps eof_def)
  from ConvertBody_Post [of echo "''chan''" "Err ''unsupported type''" "''http://h/''" Map.empty
      "[]" world0] fail
  have a: "ConvertBody echo ''chan'' = None"
    and b: "Post echo ''http://h/'' Map.empty ''chan'' [] world0 = (Inl io_EOF, world0)"
    and c: "PostRaw echo ''http://h/'' Map.empty ''chan'' [] world0 = Some (Inr [], world0)"
    by (simp_all add: nc nr sent dec raw)
  from ConvertBody_Post [of echo "''7''" _ _ _ _ _ "''7''"] good
  have d: "ConvertBody echo ''7'' = Some ''7''"
    by simp
  let ?req7 = "\<lparr>Method = http_MethodPost, RequestURI = ''http://h/'', Header = Map.empty,
                RequestBody = Some ''7''\<rparr>"
  let ?reply = "response 200 ''200 OK'' [ReadResult ''7'' None] eof"
  have nr7: "http_NewRequest echo http_MethodPost ''http://h/'' (Some ''7'') = Inr ?req7"
    by (simp add: echo_def serve_def)
  have sent7: "client_Do echo world0 direct_client (fillHeaders ?req7 Map.empty) = Inr ?reply"
    by (simp add: echo_def serve_def fillHeaders_def)
  have dec7: "json_Decode echo (Body ?reply) = Inr ''7''"
    by (simp add: echo_def serve_def response_simps)
  have e: "Post echo ''http://h/'' Map.empty ''7'' [] world0 = (Inr ''7'', world0)"
    by (simp add: Post_def Http_def d nc nr7 sent7 dec7)
  from a b c d e show ?thesis by simp
qed

subsection \<open>\<^verbatim>\<open>EventSource\<close> after the response\<close>

lemma EventSource_body_answered:
  assumes "answered env method uri headers body config w res"
  shows "\<exists>w'. EventSource_body env method uri headers body callback st config w =
           (if StatusCode res \<ge> 400 then
              (case ReadAll [] (Body res) of
                 None \<Rightarrow> None
               | Some rd \<Rightarrow> Some (Returned (Some (status_error env res rd)), st, [], w'))
            else
              (case stream_loop callback st [] (Body res) of
                 None \<Rightarrow> None
               | Some (out, st', acc) \<Rightarrow> Some (out, st', acc, w')))"
proof -
  from assms obtain t req client w1 where
    dt: "DefaultTransport w = HttpTransport t"
    and nr: "http_NewRequest env method uri (ConvertBody env body) = Inr req"
    and nc: "newClient env config
          (w\<lparr>DefaultTransport :=
               HttpTransport (t\<lparr>TLSClientConfig := Some \<lparr>InsecureSkipVerify = True\<rparr>\<rparr>)\<rparr>)
          = (client, w1)"
    and cd: "client_Do env w1 client (fillHeaders req headers) = Inr res"
    unfolding answered_def by blast
  have "EventSource_body env method uri headers body callback st config w =
           (if StatusCode res \<ge> 400 then
              (case ReadAll [] (Body res) of
                 None \<Rightarrow> None
               | Some rd \<Rightarrow> Some (Returned (Some (status_error env res rd)), st, [], w1))
            else
              (case stream_loop callback st [] (Body res) of
                 None \<Rightarrow> None
               | Some (out, st', acc) \<Rightarrow> Some (out, st', acc, w1)))"
    using dt nr cd nc by (simp add: EventSource_body_def)
  then show ?thesis by blast
qed

lemma EventSource_streaming:
  assumes "answered env method uri headers body config w res"
    and "StatusCode res < 400"
    and "stream_loop callback st [] (Body res) = Some (out, st', acc)"
  shows "\<exists>r. EventSource env method uri headers body callback st config w = Some r \<and>
           returned r = (case out of Returned err \<Rightarrow> err | Panicked v \<Rightarrow> None) \<and>
           cb_state r = st' \<and> delivered r = acc"
proof -
  from EventSource_body_answered [OF assms(1), of callback st] assms(2,3)
  obtain w' where
    "EventSource_body env method uri headers body callback st config w = Some (out, st', acc, w')"
    by auto
  then show ?thesis
    by (cases out) (simp_all add: EventSource_def)
qed

lemma stream_loop_ended:
  assumes "\<forall>c \<in> set cs. length c \<le> 20480"
  shows "stream_loop callback st acc (reads cs @- (ReadResult bs (Some e) ## rest)) =
     (case feed callback st acc (concat (map segments cs)) of
        (Some out, st', acc') \<Rightarrow> Some (out, st', acc')
      | (None, st', acc') \<Rightarrow> Some (Returned (if e = io_EOF then None else Some e), st', acc'))"
  by (simp add: stream_loop_chunks [OF assms] stream_loop_EOF stream_loop_error
           split: prod.splits option.splits)

lemma run_endless: "run (endless 200 ''200 OK'' []) collect world0 = None"
proof -
  from EventSource_body_answered [OF answered_serve, of "endless 200 ''200 OK'' []" collect "[]"]
  have "EventSource_body (serve (endless 200 ''200 OK'' [])) ''GET'' ''http://h/events'' Map.empty
      ''{}'' collect [] [] world0 = None"
    by (auto simp: endless_simps stream_loop_endless)
  then show ?thesis
    by (simp add: run_def EventSource_def)
qed

subsection \<open>Segments\<close>




subsection \<open>An error of the callback\<close>

text \<open>
  C3: when the callback has accepted the segments \<open>pre\<close> and returns the error \<open>err\<close> on
  the next segment \<open>seg\<close>, \<^verbatim>\<open>EventSource\<close> returns exactly \<open>err\<close>, and \<open>seg\<close> is the last
  segment delivered: the segments \<open>post\<close> that follow it in the chunks already read are not
  delivered, and whatever the body holds after these chunks (\<open>rest\<close>, which may never
  end) is not read, since the result does not depend on it.
\<close>

theorem EventSource_callback_error:
  assumes "answered env method uri headers body config w res"
    and "StatusCode res < 400"
    and "Body res = reads cs @- rest"
    and "\<forall>c \<in> set cs. length c \<le> 20480"
    and "concat (map segments cs) = pre @ seg # post"
    and "feed callback st [] pre = (None, stp, accp)"
    and "callback stp seg = (Returned (Some err), stq)"
  shows "\<exists>r. EventSource env method uri headers body callback st config w = Some r \<and>
           returned r = Some err \<and> cb_state r = stq \<and> delivered r = pre @ [seg]"
proof -
  have accp: "accp = pre"
    using feed_all_delivered [OF assms(6)] by simp
  have "feed callback st [] (concat (map segments cs)) = (Some (Returned (Some err)), stq, pre @ [seg])"
    by (simp add: assms(5) feed_append assms(6) assms(7) accp)
  then have "stream_loop callback st [] (Body res) = Some (Returned (Some err), stq, pre @ [seg])"
    by (simp add: assms(3) stream_loop_chunks [OF assms(4)])
  from EventSource_streaming [OF assms(1,2) this] show ?thesis by simp
qed

theorem EventSource_callback_error_witness:
  "map_option (\<lambda>r. (returned r, delivered r))
     (run (endless 200 ''200 OK'' [ReadResult ''a\<newline>b\<newline>c\<newline>'' None])
        (on_call 1 (Returned (Some (Err ''stop'')))) world0)
     = Some (Some (Err ''stop''), [''a'', ''b''])"
proof -
  let ?res = "endless 200 ''200 OK'' [ReadResult ''a\<newline>b\<newline>c\<newline>'' None]"
  let ?cb = "on_call 1 (Returned (Some (Err ''stop'')))"
  have status: "StatusCode ?res < 400"
    by (simp add: endless_simps)
  have body: "Body ?res = reads [''a\<newline>b\<newline>c\<newline>''] @- sconst (ReadResult ''x\<newline>'' None)"
    by (simp add: endless_simps)
  have len: "\<forall>c\<in>set [''a\<newline>b\<newline>c\<newline>'']. length c \<le> 20480"
    by simp
  have segs: "concat (map segments [''a\<newline>b\<newline>c\<newline>'']) = [''a''] @ ''b'' # [''c'']"
    by (simp add: segments_examples)
  have first: "feed ?cb [] [] [''a''] = (None, [''a''], [''a''])"
    by (simp add: on_call_def)
  have second: "?cb [''a''] ''b'' = (Returned (Some (Err ''stop'')), [''a'', ''b''])"
    by (simp add: on_call_def)
  from EventSource_callback_error [OF answered_serve status body len segs first second]
  obtain r where "run ?res ?cb world0 = Some r" "returned r = Some (Err ''stop'')"
    "delivered r = [''a''] @ [''b'']"
    by (auto simp: run_def)
  then show ?thesis by simp
qed

subsection \<open>The end of the body\<close>

text \<open>
  C5: when the body gives chunks and then a read with \<^verbatim>\<open>io.EOF\<close>, and the callback accepts
  the segments of the chunks, \<^verbatim>\<open>EventSource\<close> returns \<^verbatim>\<open>nil\<close> after having delivered these
  segments, however many they are (none, when there is no chunk or no chunk has a
  segment).
\<close>

theorem EventSource_clean_EOF:
  assumes "answered env method uri headers body config w res"
    and "StatusCode res < 400"
    and "Body res = reads cs @- (ReadResult bs (Some io_EOF) ## rest)"
    and "\<forall>c \<in> set cs. length c \<le> 20480"
    and "feed callback st [] (concat (map segments cs)) = (None, st', acc)"
  shows "\<exists>r. EventSource env method uri headers body callback st config w = Some r \<and>
           returned r = None \<and> delivered r = concat (map segments cs) \<and> cb_state r = st'"
proof -
  have "stream_loop callback st [] (Body res) = Some (Returned None, st', acc)"
    by (simp add: assms(3) stream_loop_ended [OF assms(4)] assms(5))
  from EventSource_streaming [OF assms(1,2) this] feed_all_delivered [OF assms(5)]
  show ?thesis by auto
qed

theorem EventSource_clean_EOF_witness:
  "map_option (\<lambda>r. (returned r, delivered r)) (run (response 200 ''200 OK'' [] eof) collect world0)
     = Some (None, [])
   \<and> map_option (\<lambda>r. (returned r, delivered r))
       (run (response 200 ''200 OK'' [ReadResult ''a\<newline>b\<newline>c\<newline>'' None] eof) collect world0)
     = Some (None, [''a'', ''b'', ''c''])"
proof -
  let ?none = "response 200 ''200 OK'' [] eof"
  let ?three = "response 200 ''200 OK'' [ReadResult ''a\<newline>b\<newline>c\<newline>'' None] eof"
  have status: "StatusCode ?none < 400" "StatusCode ?three < 400"
    by (simp_all add: response_simps)
  have "Body ?none = reads [] @- (ReadResult [] (Some io_EOF) ## sconst (ReadResult [] (Some io_EOF)))"
    by (simp add: response_simps eof_def)
  from EventSource_clean_EOF [OF answered_serve status(1) this, where callback = collect
      and st = "[]" and st' = "[]" and acc = "[]"]
  obtain r where "run ?none collect world0 = Some r" "returned r = None" "delivered r = []"
    by (auto simp: run_def)
  then have none: "map_option (\<lambda>r. (returned r, delivered r)) (run ?none collect world0) = Some (None, [])"
    by simp
  have body: "Body ?three = reads [''a\<newline>b\<newline>c\<newline>''] @- (ReadResult [] (Some io_EOF) ##
          sconst (ReadResult [] (Some io_EOF)))"
    by (simp add: response_simps eof_def)
  have len: "\<forall>c\<in>set [''a\<newline>b\<newline>c\<newline>'']. length c \<le> 20480"
    by simp
  have accepted: "feed collect [] [] (concat (map segments [''a\<newline>b\<newline>c\<newline>''])) =
      (None, [''a'', ''b'', ''c''], [''a'', ''b'', ''c''])"
    by (simp add: segments_examples collect_def)
  from EventSource_clean_EOF [OF answered_serve status(2) body len accepted]
  obtain r where "run ?three collect world0 = Some r" "returned r = None"
    "delivered r = concat (map segments [''a\<newline>b\<newline>c\<newline>''])"
    by (auto simp: run_def)
  then have three: "map_option (\<lambda>r. (returned r, delivered r)) (run ?three collect world0) =
      Some (None, [''a'', ''b'', ''c''])"
    by (simp add: segments_examples)
  from none three show ?thesis ..
qed

text \<open>
  C6: when the read that reports \<^verbatim>\<open>io.EOF\<close> also gives \<open>n > 0\<close> bytes, \<^verbatim>\<open>EventSource\<close>
  returns \<^verbatim>\<open>nil\<close> and has delivered the segments of the earlier chunks only: the callback
  is in the state it had after them, and no segment of these last bytes reaches it.
\<close>

theorem EventSource_EOF_discards_data:
  assumes "answered env method uri headers body config w res"
    and "StatusCode res < 400"
    and "Body res = reads cs @- (ReadResult bs (Some io_EOF) ## rest)"
    and "0 < length bs"
    and "\<forall>c \<in> set cs. length c \<le> 20480"
    and "feed callback st [] (concat (map segments cs)) = (None, st', acc)"
  shows "\<exists>r. EventSource env method uri headers body callback st config w = Some r \<and>
           returned r = None \<and> cb_state r = st' \<and> delivered r = concat (map segments cs)"
proof -
  have "stream_loop callback st [] (Body res) = Some (Returned None, st', acc)"
    by (simp add: assms(3) stream_loop_ended [OF assms(5)] assms(6))
  from EventSource_streaming [OF assms(1,2) this] feed_all_delivered [OF assms(6)]
  show ?thesis by simp
qed

theorem EventSource_EOF_discards_data_witness:
  "map_option (\<lambda>r. (returned r, delivered r))
     (run (response 200 ''200 OK'' [ReadResult ''a\<newline>'' None]
            (ReadResult ''tail\<newline>'' (Some io_EOF))) collect world0)
     = Some (None, [''a''])"
proof -
  let ?res = "response 200 ''200 OK'' [ReadResult ''a\<newline>'' None]
                (ReadResult ''tail\<newline>'' (Some io_EOF))"
  have status: "StatusCode ?res < 400"
    by (simp add: response_simps)
  have body: "Body ?res = reads [''a\<newline>''] @- (ReadResult ''tail\<newline>'' (Some io_EOF) ##
          sconst (ReadResult [] (Some io_EOF)))"
    by (simp add: response_simps)
  have data: "0 < length ''tail\<newline>''"
    by simp
  have len: "\<forall>c\<in>set [''a\<newline>'']. length c \<le> 20480"
    by simp
  have accepted: "feed collect [] [] (concat (map segments [''a\<newline>''])) = (None, [''a''], [''a''])"
    by (simp add: segments_examples collect_def)
  from EventSource_EOF_discards_data [OF answered_serve status body data len accepted]
  obtain r where "run ?res collect world0 = Some r" "returned r = None"
    "delivered r = concat (map segments [''a\<newline>''])"
    by (auto simp: run_def)
  then show ?thesis by (simp add: segments_examples)
qed

subsection \<open>A status of 400 or more\<close>

text \<open>
  C2: when the status code is at least 400 and the reads of the body come to an end,
  \<^verbatim>\<open>EventSource\<close> returns an error without any call of the callback. It reads the whole
  body (the bytes of every read, those given with \<^verbatim>\<open>io.EOF\<close> too); when that parses as a
  JSON object, the message of the error is the status line followed by the rendering of
  the object with indent 2, and otherwise (also when a read failed) it is the status line
  alone.
\<close>

theorem EventSource_status_error:
  assumes "answered env method uri headers body config w res"
    and "400 \<le> StatusCode res"
    and "Body res = reads cs @- (ReadResult bs (Some e) ## rest)"
  shows "\<exists>r. EventSource env method uri headers body callback st config w = Some r \<and>
           delivered r = [] \<and> cb_state r = st \<and>
           returned r =
             Some (Err (if e = io_EOF then
                          (case Unmarshal env (concat cs @ bs) of
                             Inr form \<Rightarrow>
                               ''request failed with status: '' @ Status res @ ''\<newline>```json\<newline>''
                               @ MarshalWithIndent env form 2 @ ''\<newline>```''
                           | Inl err \<Rightarrow> ''request failed with status: '' @ Status res)
                        else ''request failed with status: '' @ Status res))"
proof -
  have rd: "ReadAll [] (Body res) = Some (concat cs @ bs, if e = io_EOF then None else Some e)"
    using ReadAll_ends [of "[]" cs bs e rest] by (simp add: assms(3))
  from EventSource_body_answered [OF assms(1), of callback st] assms(2) rd
  obtain w' where
    "EventSource_body env method uri headers body callback st config w =
       Some (Returned (Some (status_error env res
          (concat cs @ bs, if e = io_EOF then None else Some e))), st, [], w')"
    by auto
  then show ?thesis
    by (simp add: EventSource_def status_error_def split: sum.splits)
qed

theorem EventSource_status_error_witness:
  "map_option (\<lambda>r. (returned r, delivered r))
     (run (response 500 ''500 Internal Server Error'' [ReadResult ''{'' None]
            (ReadResult ''}'' (Some io_EOF))) (on_call 0 (Panicked ''boom'')) world0)
     = Some (Some (Err ''request failed with status: 500 Internal Server Error\<newline>```json\<newline>{}\<newline>```''), [])
   \<and> map_option (\<lambda>r. (returned r, delivered r))
     (run (response 404 ''404 Not Found'' [ReadResult ''gone'' None] eof)
        (on_call 0 (Panicked ''boom'')) world0)
     = Some (Some (Err ''request failed with status: 404 Not Found''), [])"
proof -
  let ?json = "response 500 ''500 Internal Server Error'' [ReadResult ''{'' None]
            (ReadResult ''}'' (Some io_EOF))"
  let ?text = "response 404 ''404 Not Found'' [ReadResult ''gone'' None] eof"
  let ?cb = "on_call 0 (Panicked ''boom'')"
  have status: "400 \<le> StatusCode ?json" "400 \<le> StatusCode ?text"
    by (simp_all add: response_simps)
  have "Body ?json = reads [''{''] @- (ReadResult ''}'' (Some io_EOF) ##
          sconst (ReadResult [] (Some io_EOF)))"
    by (simp add: response_simps)
  from EventSource_status_error [OF answered_serve status(1) this, where callback = ?cb
      and st = "[]"]
  obtain r where "run ?json ?cb world0 = Some r" "delivered r = []"
    "returned r = Some (Err (case Unmarshal (serve ?json) (concat [''{''] @ ''}'') of
         Inr form \<Rightarrow> ''request failed with status: '' @ Status ?json @ ''\<newline>```json\<newline>''
                      @ MarshalWithIndent (serve ?json) form 2 @ ''\<newline>```''
       | Inl err \<Rightarrow> ''request failed with status: '' @ Status ?json))"
    by (auto simp: run_def)
  then have json: "map_option (\<lambda>r. (returned r, delivered r)) (run ?json ?cb world0) =
      Some (Some (Err ''request failed with status: 500 Internal Server Error\<newline>```json\<newline>{}\<newline>```''), [])"
    by (simp add: serve_def response_simps)
  have "Body ?text = reads [''gone''] @- (ReadResult [] (Some io_EOF) ##
          sconst (ReadResult [] (Some io_EOF)))"
    by (simp add: response_simps eof_def)
  from EventSource_status_error [OF answered_serve status(2) this, where callback = ?cb
      and st = "[]"]
  obtain r where "run ?text ?cb world0 = Some r" "delivered r = []"
    "returned r = Some (Err (case Unmarshal (serve ?text) (concat [''gone''] @ []) of
         Inr form \<Rightarrow> ''request failed with status: '' @ Status ?text @ ''\<newline>```json\<newline>''
                      @ MarshalWithIndent (serve ?text) form 2 @ ''\<newline>```''
       | Inl err \<Rightarrow> ''request failed with status: '' @ Status ?text))"
    by (auto simp: run_def)
  then have plain: "map_option (\<lambda>r. (returned r, delivered r)) (run ?text ?cb world0) =
      Some (Some (Err ''request failed with status: 404 Not Found''), [])"
    by (simp add: serve_def response_simps)
  from json plain show ?thesis ..
qed

subsection \<open>Panics\<close>

text \<open>
  Where the body of \<^verbatim>\<open>EventSource\<close> panics: in the type assertion, when the default
  transport is no \<^verbatim>\<open>*http.Transport\<close>; in the write to its field, when it is a nil
  pointer; in \<^verbatim>\<open>buf[:n]\<close>, when a read reports more bytes than the buffer has (the lemma
  on the loop above); and in the callback.
\<close>

lemma EventSource_type_assertion:
  assumes "DefaultTransport w = OtherRoundTripper ty"
  shows "EventSource_body env method uri headers body callback st config w =
           Some (Panicked (''interface conversion: http.RoundTripper is '' @ ty
                           @ '', not *http.Transport''), st, [], w)"
  using assms by (simp add: EventSource_body_def)

lemma EventSource_nil_pointer:
  assumes "DefaultTransport w = NilHttpTransport"
  shows "EventSource_body env method uri headers body callback st config w =
           Some (Panicked ''runtime error: invalid memory address or nil pointer dereference'',
                 st, [], w)"
  using assms by (simp add: EventSource_body_def)

lemma EventSource_body_callback_panic:
  assumes "answered env method uri headers body config w res"
    and "StatusCode res < 400"
    and "Body res = reads cs @- rest"
    and "\<forall>c \<in> set cs. length c \<le> 20480"
    and "concat (map segments cs) = pre @ seg # post"
    and "feed callback st [] pre = (None, stp, accp)"
    and "callback stp seg = (Panicked v, stq)"
  shows "\<exists>w'. EventSource_body env method uri headers body callback st config w =
           Some (Panicked v, stq, pre @ [seg], w')"
proof -
  have accp: "accp = pre"
    using feed_all_delivered [OF assms(6)] by simp
  have "feed callback st [] (concat (map segments cs)) = (Some (Panicked v), stq, pre @ [seg])"
    by (simp add: assms(5) feed_append assms(6) assms(7) accp)
  then have "stream_loop callback st [] (Body res) = Some (Panicked v, stq, pre @ [seg])"
    by (simp add: assms(3) stream_loop_chunks [OF assms(4)])
  with EventSource_body_answered [OF assms(1), of callback st] assms(2)
  show ?thesis by auto
qed

text \<open>
  C4: when the body of \<^verbatim>\<open>EventSource\<close> panics with the value \<open>v\<close>, whatever raised it,
  \<^verbatim>\<open>EventSource\<close> returns \<^verbatim>\<open>nil\<close>, and the log has one more warning, with \<open>v\<close>, the URI,
  the method and the stack trace.
\<close>

theorem EventSource_recovers:
  assumes "EventSource_body env method uri headers body callback st config w =
             Some (Panicked v, st', acc, w')"
  shows "EventSource env method uri headers body callback st config w =
           Some \<lparr>returned = None, cb_state = st', delivered = acc,
                 world_after =
                   w'\<lparr>logs := logs w' @
                      [Warn (''event source panic: '' @ v @ '' (uri: '' @ uri @ '', method: ''
                             @ method @ '')\<newline>'' @ debug_Stack env)]\<rparr>\<rparr>"
  using assms by (simp add: EventSource_def globals_Warn_def)

theorem EventSource_recovers_witness:
  "run (response 200 ''200 OK'' [ReadResult ''a\<newline>b\<newline>c\<newline>'' None] eof)
     (on_call 1 (Panicked ''boom'')) world0
   = Some \<lparr>returned = None, cb_state = [''a'', ''b''], delivered = [''a'', ''b''],
           world_after =
             \<lparr>DefaultTransport =
                HttpTransport \<lparr>TransportProxy = None, DialContext = None,
                               TLSClientConfig = Some \<lparr>InsecureSkipVerify = True\<rparr>\<rparr>,
              logs = [Warn ''event source panic: boom (uri: http://h/events, method: GET)\<newline>goroutine 1 [running]'']\<rparr>\<rparr>"
proof -
  let ?res = "response 200 ''200 OK'' [ReadResult ''a\<newline>b\<newline>c\<newline>'' None] eof"
  let ?cb = "on_call 1 (Panicked ''boom'')"
  let ?w = "\<lparr>DefaultTransport =
                HttpTransport \<lparr>TransportProxy = None, DialContext = None,
                               TLSClientConfig = Some \<lparr>InsecureSkipVerify = True\<rparr>\<rparr>,
              logs = []\<rparr>"
  have loop: "stream_loop ?cb [] [] (Body ?res) = Some (Panicked ''boom'', [''a'', ''b''], [''a'', ''b''])"
    by (simp add: response_simps stream_loop_chunk segments_examples on_call_def)
  have "EventSource_body (serve ?res) ''GET'' ''http://h/events'' Map.empty ''{}'' ?cb [] [] world0
          = Some (Panicked ''boom'', [''a'', ''b''], [''a'', ''b''], ?w)"
    using loop
    by (simp add: EventSource_body_def serve_def world0_def newClient_def response_simps)
  from EventSource_recovers [OF this] show ?thesis
    by (simp add: run_def serve_def)
qed

subsection \<open>The default transport\<close>

text \<open>
  When another package has put a round tripper of its own in \<^verbatim>\<open>http.DefaultTransport\<close>,
  the type assertion panics, and when the variable holds a nil \<^verbatim>\<open>*http.Transport\<close>, the
  write does: the call returns \<^verbatim>\<open>nil\<close> and the default transport is what it was, with no
  TLS configuration set by the call.
\<close>

theorem EventSource_default_transport_counterexample:
  "map_option (DefaultTransport \<circ> world_after)
     (run (response 200 ''200 OK'' [] eof) collect world_replaced)
   = Some (OtherRoundTripper ''*trace.Transport'')
   \<and> map_option (DefaultTransport \<circ> world_after)
     (run (response 200 ''200 OK'' [] eof) collect world_nil)
   = Some NilHttpTransport"
  by (simp add: run_def EventSource_def EventSource_body_def world_replaced_def world_nil_def
        globals_Warn_def)

text \<open>What \<^verbatim>\<open>client.Do\<close> does matters to \<^verbatim>\<open>EventSource\<close> only for the client and in the world that it is called with.\<close>

lemma EventSource_body_client_Do:
  assumes "DefaultTransport w = HttpTransport t"
    and "newClient env config
           (w\<lparr>DefaultTransport :=
                HttpTransport (t\<lparr>TLSClientConfig := Some \<lparr>InsecureSkipVerify = True\<rparr>\<rparr>)\<rparr>)
         = (client, w')"
    and "\<forall>r. f w' client r = g w' client r"
  shows "EventSource_body (env\<lparr>client_Do := f\<rparr>) method uri headers body callback st config w =
         EventSource_body (env\<lparr>client_Do := g\<rparr>) method uri headers body callback st config w"
  using assms
  by (simp add: EventSource_body_def newClient_client_Do ConvertBody_client_Do
        status_error_client_Do split: sum.splits option.splits)

text \<open>
  C9, for a default transport that is a \<^verbatim>\<open>*http.Transport\<close> and not \<^verbatim>\<open>nil\<close>. The call
  writes the TLS configuration with certificate verification disabled, the same value
  whatever the arguments, and builds its client in the world that has it: \<open>client\<close> and
  \<open>w'\<close> are what \<^verbatim>\<open>newClient\<close> gives there. In \<open>w'\<close> the default transport has the new
  configuration and its other fields as before, and the log has its earlier lines and
  possibly more. The request is sent with this client in this world and in no other:
  two clients' \<^verbatim>\<open>Do\<close> that agree there give the same call, whether it returns or not. And
  when the call returns, the default transport is still so, and the log has only grown.
  (Among the calls that follow the theorem, one has a client that fails wherever
  verification is not disabled, and a body that never ends: it does not return.)
\<close>

theorem EventSource_default_transport:
  assumes "DefaultTransport w = HttpTransport t"
    and "newClient env config
           (w\<lparr>DefaultTransport :=
                HttpTransport (t\<lparr>TLSClientConfig := Some \<lparr>InsecureSkipVerify = True\<rparr>\<rparr>)\<rparr>)
         = (client, w')"
  shows "DefaultTransport w' =
           HttpTransport (t\<lparr>TLSClientConfig := Some \<lparr>InsecureSkipVerify = True\<rparr>\<rparr>)
         \<and> (\<exists>ls. logs w' = logs w @ ls)
         \<and> (\<forall>f g. (\<forall>r. f w' client r = g w' client r) \<longrightarrow>
               EventSource (env\<lparr>client_Do := f\<rparr>) method uri headers body callback st config w =
               EventSource (env\<lparr>client_Do := g\<rparr>) method uri headers body callback st config w)
         \<and> (\<forall>r. EventSource env method uri headers body callback st config w = Some r \<longrightarrow>
               DefaultTransport (world_after r) =
                 HttpTransport (t\<lparr>TLSClientConfig := Some \<lparr>InsecureSkipVerify = True\<rparr>\<rparr>)
               \<and> (\<exists>ls. logs (world_after r) = logs w @ ls))"
proof (intro conjI allI impI)
  let ?W = "w\<lparr>DefaultTransport :=
                HttpTransport (t\<lparr>TLSClientConfig := Some \<lparr>InsecureSkipVerify = True\<rparr>\<rparr>)\<rparr>"
  show dt: "DefaultTransport w' =
      HttpTransport (t\<lparr>TLSClientConfig := Some \<lparr>InsecureSkipVerify = True\<rparr>\<rparr>)"
    using newClient_DefaultTransport [of env config ?W] assms(2) by simp
  show lg: "\<exists>ls. logs w' = logs w @ ls"
    using newClient_logs [of env config ?W] assms(2) by simp
  {
    fix f g :: "world \<Rightarrow> http_Client \<Rightarrow> http_Request \<Rightarrow> error + http_Response"
    assume "\<forall>r. f w' client r = g w' client r"
    with assms have
      "EventSource_body (env\<lparr>client_Do := f\<rparr>) method uri headers body callback st config w =
       EventSource_body (env\<lparr>client_Do := g\<rparr>) method uri headers body callback st config w"
      by (rule EventSource_body_client_Do)
    then show "EventSource (env\<lparr>client_Do := f\<rparr>) method uri headers body callback st config w =
          EventSource (env\<lparr>client_Do := g\<rparr>) method uri headers body callback st config w"
      by (simp add: EventSource_def split: option.splits prod.splits outcome.splits)
  }
  {
    fix r
    assume ret: "EventSource env method uri headers body callback st config w = Some r"
    then obtain out st' acc where
      body: "EventSource_body env method uri headers body callback st config w = Some (out, st', acc, w')"
      using assms
      by (auto simp: EventSource_def EventSource_body_def
               split: option.splits sum.splits if_splits prod.splits)
    have "world_after r = w' \<or> (\<exists>msg. world_after r = globals_Warn msg w')"
      using body ret by (cases out) (auto simp: EventSource_def)
    with dt lg
    show "DefaultTransport (world_after r) =
        HttpTransport (t\<lparr>TLSClientConfig := Some \<lparr>InsecureSkipVerify = True\<rparr>\<rparr>)"
      and "\<exists>ls. logs (world_after r) = logs w @ ls"
      by (auto simp: globals_Warn_def)
  }
qed

theorem EventSource_default_transport_witness:
  "map_option (\<lambda>r. (returned r, delivered r, DefaultTransport (world_after r)))
     (EventSource
        ((serve (response 200 ''200 OK'' [ReadResult ''a\<newline>b\<newline>c\<newline>'' None] eof))
           \<lparr>client_Do :=
              guarded (response 200 ''200 OK'' [ReadResult ''a\<newline>b\<newline>c\<newline>'' None] eof)\<rparr>)
        ''GET'' ''http://h/events'' Map.empty ''{}'' collect [] [] world0)
   = Some (None, [''a'', ''b'', ''c''],
           HttpTransport \<lparr>TransportProxy = None, DialContext = None,
                          TLSClientConfig = Some \<lparr>InsecureSkipVerify = True\<rparr>\<rparr>)
   \<and> EventSource
        ((serve (endless 200 ''200 OK'' []))\<lparr>client_Do := guarded (endless 200 ''200 OK'' [])\<rparr>)
        ''GET'' ''http://h/events'' Map.empty ''{}'' collect [] [] world0
     = None"
proof -
  let ?res = "response 200 ''200 OK'' [ReadResult ''a\<newline>b\<newline>c\<newline>'' None] eof"
  let ?t = "\<lparr>TransportProxy = None, DialContext = None, TLSClientConfig = None\<rparr>"
  let ?W = "\<lparr>DefaultTransport =
               HttpTransport \<lparr>TransportProxy = None, DialContext = None,
                              TLSClientConfig = Some \<lparr>InsecureSkipVerify = True\<rparr>\<rparr>,
             logs = []\<rparr>"
  have dt: "DefaultTransport world0 = HttpTransport ?t"
    by (simp add: world0_def)
  have nc: "newClient (serve ?res) []
        (world0\<lparr>DefaultTransport :=
           HttpTransport (?t\<lparr>TLSClientConfig := Some \<lparr>InsecureSkipVerify = True\<rparr>\<rparr>)\<rparr>)
      = (direct_client, ?W)"
    by (simp add: newClient_def direct_client_def world0_def)
  have same: "\<forall>r. guarded ?res ?W direct_client r = (\<lambda>w c r. Inr ?res) ?W direct_client r"
    by (simp add: guarded_def verification_off_def)
  have plain: "(serve ?res)\<lparr>client_Do := (\<lambda>w c r. Inr ?res)\<rparr> = serve ?res"
    by (simp add: serve_def)
  have loop: "stream_loop collect [] [] (Body ?res)
      = Some (Returned None, [''a'', ''b'', ''c''], [''a'', ''b'', ''c''])"
    by (simp add: response_simps eof_def stream_loop_chunk stream_loop_EOF segments_examples
          collect_def)
  from EventSource_streaming [OF answered_serve _ loop]
  obtain r where r: "run ?res collect world0 = Some r" "returned r = None"
    "delivered r = [''a'', ''b'', ''c'']"
    by (auto simp: run_def response_simps)
  note inst = EventSource_default_transport [OF dt nc, of "''GET''" "''http://h/events''"
      Map.empty "''{}''" collect "[]"]
  from inst same plain
  have eq: "EventSource ((serve ?res)\<lparr>client_Do := guarded ?res\<rparr>) ''GET'' ''http://h/events''
        Map.empty ''{}'' collect [] [] world0 = run ?res collect world0"
    unfolding run_def by metis
  from inst r(1) have "DefaultTransport (world_after r) =
      HttpTransport (?t\<lparr>TLSClientConfig := Some \<lparr>InsecureSkipVerify = True\<rparr>\<rparr>)"
    unfolding run_def by blast
  with eq r have returns: "map_option (\<lambda>r. (returned r, delivered r, DefaultTransport (world_after r)))
     (EventSource ((serve ?res)\<lparr>client_Do := guarded ?res\<rparr>) ''GET'' ''http://h/events''
        Map.empty ''{}'' collect [] [] world0)
   = Some (None, [''a'', ''b'', ''c''],
           HttpTransport \<lparr>TransportProxy = None, DialContext = None,
                          TLSClientConfig = Some \<lparr>InsecureSkipVerify = True\<rparr>\<rparr>)"
    by simp
  let ?end = "endless 200 ''200 OK'' []"
  have nc': "newClient (serve ?end) []
        (world0\<lparr>DefaultTransport :=
           HttpTransport (?t\<lparr>TLSClientConfig := Some \<lparr>InsecureSkipVerify = True\<rparr>\<rparr>)\<rparr>)
      = (direct_client, ?W)"
    by (simp add: newClient_def direct_client_def world0_def)
  have same': "\<forall>r. guarded ?end ?W direct_client r = (\<lambda>w c r. Inr ?end) ?W direct_client r"
    by (simp add: guarded_def verification_off_def)
  have plain': "(serve ?end)\<lparr>client_Do := (\<lambda>w c r. Inr ?end)\<rparr> = serve ?end"
    by (simp add: serve_def)
  note inst' = EventSource_default_transport [OF dt nc', of "''GET''" "''http://h/events''"
      Map.empty "''{}''" collect "[]"]
  from inst' same' plain'
  have "EventSource ((serve ?end)\<lparr>client_Do := guarded ?end\<rparr>) ''GET'' ''http://h/events''
        Map.empty ''{}'' collect [] [] world0 = run ?end collect world0"
    unfolding run_def by metis
  with run_endless have hangs: "EventSource ((serve ?end)\<lparr>client_Do := guarded ?end\<rparr>) ''GET''
        ''http://h/events'' Map.empty ''{}'' collect [] [] world0 = None"
    by simp
  from returns hangs show ?thesis ..
qed


end
